theory Spec2Isabelle
  imports Main
begin

section \<open>Python strings\<close>

text \<open>
  A Python \<open>str\<close> is a sequence of code points. The model uses \<open>string\<close> and reads each
  \<open>char\<close> as the code point with that number, so it covers the texts whose code points
  lie below 256 (ASCII and Latin-1). The character classes below are those of Python's
  \<open>str.isspace\<close>, \<open>str.isalpha\<close>, \<open>str.lower\<close> and \<open>str.upper\<close> on that range.
\<close>

definition code_point :: "char \<Rightarrow> nat" where
  "code_point c = of_char c"

definition py_isspace :: "char \<Rightarrow> bool" where
  "py_isspace c =
     (let n = code_point c
      in (9 \<le> n \<and> n \<le> 13) \<or> (28 \<le> n \<and> n \<le> 32) \<or> n = 133 \<or> n = 160)"

definition py_isalpha_char :: "char \<Rightarrow> bool" where
  "py_isalpha_char c =
     (let n = code_point c
      in (65 \<le> n \<and> n \<le> 90) \<or> (97 \<le> n \<and> n \<le> 122) \<or> n = 170 \<or> n = 181 \<or> n = 186 \<or>
         (192 \<le> n \<and> n \<le> 214) \<or> (216 \<le> n \<and> n \<le> 246) \<or> (248 \<le> n \<and> n \<le> 255))"

text \<open>\<open>s.isalpha()\<close>: every character is alphabetic and there is at least one.\<close>

definition py_isalpha :: "string \<Rightarrow> bool" where
  "py_isalpha s = (s \<noteq> [] \<and> list_all py_isalpha_char s)"

definition py_lower_char :: "char \<Rightarrow> char" where
  "py_lower_char c =
     (let n = code_point c
      in if (65 \<le> n \<and> n \<le> 90) \<or> (192 \<le> n \<and> n \<le> 214) \<or> (216 \<le> n \<and> n \<le> 222)
         then char_of (n + 32) else c)"

definition py_lower :: "string \<Rightarrow> string" where
  "py_lower s = map py_lower_char s"

text \<open>
  \<open>s.upper()\<close>. The sharp s (223) becomes \<open>SS\<close>. The upper-case forms of the micro sign
  (181) and of y with diaeresis (255) lie beyond code point 255 and have no \<open>char\<close>;
  the model leaves these two unchanged. Upper-casing only labels the language in the
  reply that quotes a translation.
\<close>

definition py_upper_char :: "char \<Rightarrow> string" where
  "py_upper_char c =
     (let n = code_point c
      in if (97 \<le> n \<and> n \<le> 122) \<or> (224 \<le> n \<and> n \<le> 246) \<or> (248 \<le> n \<and> n \<le> 254)
         then [char_of (n - 32)]
         else if n = 223 then ''SS'' else [c])"

definition py_upper :: "string \<Rightarrow> string" where
  "py_upper s = concat (map py_upper_char s)"

text \<open>\<open>s.strip()\<close>: leading and trailing whitespace removed.\<close>

definition py_strip :: "string \<Rightarrow> string" where
  "py_strip s = rev (dropWhile py_isspace (rev (dropWhile py_isspace s)))"

text \<open>\<open>s.startswith(p)\<close>.\<close>

definition py_startswith :: "string \<Rightarrow> string \<Rightarrow> bool" where
  "py_startswith s p = (take (length p) s = p)"

text \<open>\<open>s.split(sep)\<close> for a one-character separator: never an empty list.\<close>

fun py_split :: "char \<Rightarrow> string \<Rightarrow> string list" where
  "py_split sep [] = [[]]"
| "py_split sep (c # cs) =
     (if c = sep then [] # py_split sep cs
      else (case py_split sep cs of [] \<Rightarrow> [[c]] | p # ps \<Rightarrow> (c # p) # ps))"

text \<open>\<open>s.split(sep, 1)\<close>: at most one split, at the first occurrence of the separator.\<close>

definition py_split1 :: "char \<Rightarrow> string \<Rightarrow> string list" where
  "py_split1 sep s =
     (case dropWhile (\<lambda>c. c \<noteq> sep) s of
        [] \<Rightarrow> [s]
      | _ # rest \<Rightarrow> [takeWhile (\<lambda>c. c \<noteq> sep) s, rest])"

text \<open>
  \<open>int(s)\<close> on a string: surrounding whitespace is ignored, then an optional sign and
  decimal digits, where single underscores may stand between digits. \<open>None\<close> is the
  \<open>ValueError\<close>. The whitespace that \<open>int\<close> ignores is narrower than that of
  \<open>str.strip\<close>: the separators 28 to 31 are not part of it. A text of more than 4300
  digits is refused (the default limit of the conversion).
\<close>

definition int_isspace :: "char \<Rightarrow> bool" where
  "int_isspace c =
     (let n = code_point c in (9 \<le> n \<and> n \<le> 13) \<or> n = 32 \<or> n = 133 \<or> n = 160)"

definition py_isdigit :: "char \<Rightarrow> bool" where
  "py_isdigit c = (let n = code_point c in 48 \<le> n \<and> n \<le> 57)"

fun digits_value :: "int \<Rightarrow> string \<Rightarrow> int option" where
  "digits_value acc [] = Some acc"
| "digits_value acc [c] =
     (if py_isdigit c then Some (acc * 10 + (int (code_point c) - 48)) else None)"
| "digits_value acc (c # d # cs) =
     (if py_isdigit c then digits_value (acc * 10 + (int (code_point c) - 48)) (d # cs)
      else if c = CHR ''_'' \<and> py_isdigit d then digits_value acc (d # cs)
      else None)"

definition unsigned_value :: "string \<Rightarrow> int option" where
  "unsigned_value s =
     (case s of [] \<Rightarrow> None
      | c # cs \<Rightarrow>
          if py_isdigit c \<and> length (filter py_isdigit s) \<le> 4300 then digits_value 0 s
          else None)"

definition py_int :: "string \<Rightarrow> int option" where
  "py_int s =
     (case rev (dropWhile int_isspace (rev (dropWhile int_isspace s))) of
        [] \<Rightarrow> None
      | c # cs \<Rightarrow>
          if c = CHR ''-'' then map_option uminus (unsigned_value cs)
          else if c = CHR ''+'' then unsigned_value cs
          else unsigned_value (c # cs))"

section \<open>Configuration loader (module start-up, lines 16 to 39)\<close>

record environ =
  DISCORD_TOKEN :: "string option"
  WHITELISTED_SERVER_IDS :: "string option"

text \<open>
  Start-up either leaves the process through \<open>exit()\<close>, after the printed lines, or goes on
  to construct the client (line 39) with the token and the set of allowed guild ids.
\<close>

datatype startup_result =
    Exited "string list"
  | ClientConstructed string "int set"

text \<open>
  The parser of one token is a parameter, \<open>int\<close> of Python; \<open>py_int\<close> above is that
  parser on the strings of the model. \<open>those\<close> is \<open>None\<close> as soon as one token fails,
  the \<open>ValueError\<close> that leaves the set comprehension.
\<close>

definition startup :: "(string \<Rightarrow> int option) \<Rightarrow> environ \<Rightarrow> startup_result" where
  "startup int_of_str env =
     (case WHITELISTED_SERVER_IDS env of
        None \<Rightarrow>
          Exited [''ERROR: WHITELISTED_SERVER_IDS not found in .env file.'',
                  ''Please set WHITELISTED_SERVER_IDS=YOUR_SERVER_ID_1,YOUR_SERVER_ID_2,...'']
      | Some whitelisted_servers_str \<Rightarrow>
          if whitelisted_servers_str = [] then
            Exited [''ERROR: WHITELISTED_SERVER_IDS not found in .env file.'',
                    ''Please set WHITELISTED_SERVER_IDS=YOUR_SERVER_ID_1,YOUR_SERVER_ID_2,...'']
          else
            (case those (map (\<lambda>s. int_of_str (py_strip s))
                             (py_split CHR '','' whitelisted_servers_str)) of
               None \<Rightarrow>
                 Exited [''ERROR: WHITELISTED_SERVER_IDS in .env file must be a comma-separated list of numbers.'']
             | Some ids \<Rightarrow>
                 (case DISCORD_TOKEN env of
                    None \<Rightarrow>
                      Exited [''ERROR: DISCORD_TOKEN not found in .env file.'',
                              ''Please ensure DISCORD_TOKEN=YOUR_BOT_TOKEN_HERE is correctly set.'']
                  | Some token \<Rightarrow> ClientConstructed token (set ids))))"

section \<open>Exceptions, collaborators and observable actions\<close>

text \<open>
  The exceptions the handlers tell apart: \<open>discord.NotFound\<close>, \<open>discord.Forbidden\<close> and
  every other subclass of \<open>Exception\<close>. Each carries the text that \<open>str(e)\<close> gives.
\<close>

datatype exn = NotFound string | Forbidden string | OtherException string

fun exn_text :: "exn \<Rightarrow> string" where
  "exn_text (NotFound s) = s"
| "exn_text (Forbidden s) = s"
| "exn_text (OtherException s) = s"

text \<open>
  What an awaited call of the platform can raise: an exception of the classes above, or
  one that is not a subclass of \<open>Exception\<close>, given by its class name:
  \<open>asyncio.CancelledError\<close>, which arrives at an \<open>await\<close> when the task is cancelled, or
  \<open>KeyboardInterrupt\<close>. A clause \<open>except Exception\<close> catches the former only. The relay
  awaits nothing and calls the providers synchronously, so their exceptions are of the
  classes above.
\<close>

datatype raised = Exc exn | BaseExc string

datatype provider = Google | MyMemory

text \<open>
  A translation provider, constructor and \<open>translate\<close> call together: given source,
  target and text it raises, or returns a value that is \<open>None\<close> or a string.
\<close>

type_synonym translator = "string \<Rightarrow> string \<Rightarrow> string \<Rightarrow> exn + string option"

text \<open>Python truth of a returned value: \<open>None\<close> and the empty string are false.\<close>

fun truthy :: "string option \<Rightarrow> bool" where
  "truthy None = False"
| "truthy (Some s) = (s \<noteq> [])"

text \<open>A returned value inside an f-string.\<close>

fun format_value :: "string option \<Rightarrow> string" where
  "format_value None = ''None''"
| "format_value (Some s) = s"

text \<open>The lines printed to the log, by the statement that prints them.\<close>

datatype log_line =
    DebugReceived
  | IgnoringUnauthorized
  | Translating string string
  | UnexpectedError string
  | Attempting provider string
  | ProviderFailed provider string

text \<open>
  What a run does to the outside, in order: a printed line, a call of
  \<open>channel.fetch_message\<close>, a call of \<open>message.reply\<close> with its text, and a call of a
  provider with source, target and text.
\<close>

datatype action =
    Print log_line
  | Fetch int
  | Reply string
  | Call provider string string string

fun is_reply :: "action \<Rightarrow> bool" where
  "is_reply (Reply t) = True"
| "is_reply a = False"

fun is_call :: "action \<Rightarrow> bool" where
  "is_call (Call p src tgt t) = True"
| "is_call a = False"

fun is_fetch :: "action \<Rightarrow> bool" where
  "is_fetch (Fetch i) = True"
| "is_fetch a = False"

section \<open>Translation relay (\<open>get_translation\<close>, lines 47 to 75)\<close>

text \<open>
  One of the two \<open>try\<close> blocks (lines 56 to 63 for Google, 66 to 73 for MyMemory, the
  same statements). The result \<open>Some s\<close> is the \<open>return translated_text\<close> inside the
  block; \<open>None\<close> means that control left the block without returning, after an exception
  (which prints the failure) or after a false result (which prints nothing).
\<close>

definition try_provider ::
  "provider \<Rightarrow> translator \<Rightarrow> string \<Rightarrow> string \<Rightarrow> string option \<times> action list" where
  "try_provider which translator text target_language =
     (let tr = [Print (Attempting which target_language),
                Call which ''auto'' target_language text]
      in case translator ''auto'' target_language text of
           Inl e \<Rightarrow> (None, tr @ [Print (ProviderFailed which (exn_text e))])
         | Inr translated_text \<Rightarrow>
             if truthy translated_text then (translated_text, tr) else (None, tr))"

definition get_translation ::
  "translator \<Rightarrow> translator \<Rightarrow> string \<Rightarrow> string \<Rightarrow> string option \<times> action list" where
  "get_translation google mymemory text target_language =
     (if text = [] then (Some ''The message to translate is empty.'', [])
      else
        (case try_provider Google google text target_language of
           (Some translated_text, tr1) \<Rightarrow> (Some translated_text, tr1)
         | (None, tr1) \<Rightarrow>
             (case try_provider MyMemory mymemory text target_language of
                (Some translated_text, tr2) \<Rightarrow> (Some translated_text, tr1 @ tr2)
              | (None, tr2) \<Rightarrow> (None, tr1 @ tr2))))"

section \<open>Event dispatcher (\<open>on_message\<close>, lines 84 to 139)\<close>

record user =
  user_id :: int
  display_name :: string
  mention :: string

record guild_info =
  guild_id :: int
  guild_name :: string

text \<open>
  A message event. \<open>guild\<close> is \<open>None\<close> for a direct message; \<open>reference\<close> is \<open>None\<close> when
  the message is not a reply, and \<open>Some None\<close> when the reference has no message id.
\<close>

record message =
  author :: user
  guild :: "guild_info option"
  content :: string
  reference :: "int option option"

text \<open>
  What one run of the handler depends on: the bot's own user, the allowlist built at
  start-up, the result of fetching a message by id, the two providers, and for the
  \<open>k\<close>-th call of \<open>message.reply\<close> in the run (from 0) whether it raises.
\<close>

record env =
  client_user :: user
  allowlist :: "int set"
  fetch_message :: "int \<Rightarrow> raised + message option"
  google_translator :: translator
  mymemory_translator :: translator
  reply_outcome :: "nat \<Rightarrow> raised option"

text \<open>\<open>await message.reply(text)\<close> after the actions \<open>tr\<close>: \<open>Inl e\<close> when the send raises.\<close>

definition reply :: "env \<Rightarrow> string \<Rightarrow> action list \<Rightarrow> (raised + unit) \<times> action list" where
  "reply env text tr =
     (case reply_outcome env (length (filter is_reply tr)) of
        None \<Rightarrow> (Inr (), tr @ [Reply text])
      | Some e \<Rightarrow> (Inl e, tr @ [Reply text]))"

text \<open>
  The body of the \<open>try\<close> statement, lines 111 to 131. Line 123 reads
  \<open>message.guild.name\<close>, which raises \<open>AttributeError\<close> when \<open>message.guild\<close> is \<open>None\<close>.
\<close>

definition try_body ::
  "env \<Rightarrow> message \<Rightarrow> int \<Rightarrow> string \<Rightarrow> action list \<Rightarrow> (raised + unit) \<times> action list" where
  "try_body env message mid target_lang tr =
     (let tr1 = tr @ [Fetch mid]
      in case fetch_message env mid of
           Inl e \<Rightarrow> (Inl e, tr1)
         | Inr None \<Rightarrow>
             reply env ''Could not retrieve the original message you replied to. It might be too old or deleted.'' tr1
         | Inr (Some referenced_message) \<Rightarrow>
             (let text_to_translate = content referenced_message
              in if text_to_translate = [] then
                   reply env ''The message you replied to has no text content to translate.'' tr1
                 else
                   (case guild message of
                      None \<Rightarrow>
                        (Inl (Exc (OtherException
                                     ([CHR 0x27] @ ''NoneType' object has no attribute 'name'' @
                                      [CHR 0x27]))),
                         tr1)
                    | Some g \<Rightarrow>
                        (let tr2 = tr1 @ [Print (Translating text_to_translate target_lang)];
                             (translated_text, calls) =
                               get_translation (google_translator env) (mymemory_translator env)
                                 text_to_translate target_lang;
                             tr3 = tr2 @ calls
                         in if truthy translated_text then
                              reply env
                                (''Translation of '' @ mention (author referenced_message) @
                                 [CHR 0x27] @ ''s message to `'' @ py_upper target_lang @
                                 ''`:'' @ [CHR 0x0A] @ ''>>> '' @ format_value translated_text)
                                tr3
                            else
                              reply env
                                (''Sorry, I couldn't translate that message to `'' @
                                 target_lang @
                                 ''`. Both translation services failed or returned no result.'')
                                tr3))))"

text \<open>
  The \<open>except\<close> clauses of that statement, lines 133 to 139, applied to the outcome of
  its body: \<open>discord.NotFound\<close> first, then \<open>discord.Forbidden\<close>, then every other
  subclass of \<open>Exception\<close>, which is printed and reported with its text. An exception
  that is not a subclass of \<open>Exception\<close> matches no clause and leaves the statement. A
  reply sent from a clause is outside the body, so an exception of that send leaves the
  statement too.
\<close>

definition except_clauses ::
  "env \<Rightarrow> (raised + unit) \<times> action list \<Rightarrow> (raised + unit) \<times> action list" where
  "except_clauses env r =
     (case r of
        (Inr u, tr) \<Rightarrow> (Inr (), tr)
      | (Inl (Exc (NotFound s)), tr) \<Rightarrow>
          reply env ''The message you replied to could not be found.'' tr
      | (Inl (Exc (Forbidden s)), tr) \<Rightarrow>
          reply env ''I don't have permissions to read the message you replied to.'' tr
      | (Inl (Exc (OtherException s)), tr) \<Rightarrow>
          reply env (''An internal error occurred: '' @ s @ ''. Please try again later.'')
            (tr @ [Print (UnexpectedError s)])
      | (Inl (BaseExc c), tr) \<Rightarrow> (Inl (BaseExc c), tr))"

text \<open>
  The handler. The result is \<open>Inr ()\<close> when it returns and \<open>Inl e\<close> when the exception \<open>e\<close>
  leaves it, with the actions performed. \<open>message.author == client.user\<close> compares the
  ids of the two users.
\<close>

definition on_message :: "env \<Rightarrow> message \<Rightarrow> (raised + unit) \<times> action list" where
  "on_message env message =
     (let tr0 = [Print DebugReceived]
      in if user_id (author message) = user_id (client_user env) then (Inr (), tr0)
         else
           (if (case guild message of
                  None \<Rightarrow> False
                | Some g \<Rightarrow> guild_id g \<notin> allowlist env)
            then (Inr (), tr0 @ [Print IgnoringUnauthorized])
            else
              (case reference message of
                 None \<Rightarrow> (Inr (), tr0)
               | Some None \<Rightarrow> (Inr (), tr0)
               | Some (Some mid) \<Rightarrow>
                   if mid = 0 then (Inr (), tr0)
                   else if py_startswith (py_lower (content message)) ''/translate'' then
                     (let parts = py_split1 CHR '' '' (py_lower (content message))
                      in if length parts < 2 then
                           reply env
                             ''Usage: `/translate <language_code>` when replying to a message.''
                             tr0
                         else
                           (let target_lang = py_strip (parts ! 1)
                            in if length target_lang \<noteq> 2 \<or> \<not> py_isalpha target_lang then
                                 reply env
                                   (''Invalid language code: `'' @ target_lang @
                                    ''`. Please use a 2-letter ISO 639-1 code.'') tr0
                               else
                                 except_clauses env
                                   (try_body env message mid target_lang tr0)))
                   else (Inr (), tr0))))"

section \<open>Vocabulary of the properties\<close>

text \<open>A provider call succeeded when it returned a value that Python takes as true.\<close>

definition succeeded :: "exn + string option \<Rightarrow> bool" where
  "succeeded r = (case r of Inl e \<Rightarrow> False | Inr v \<Rightarrow> truthy v)"

definition returned_value :: "exn + string option \<Rightarrow> string option" where
  "returned_value r = (case r of Inl e \<Rightarrow> None | Inr v \<Rightarrow> v)"

text \<open>
  The event passes the two filters of lines 88 to 93: it is not the bot's own message, and
  its guild, when it has one, is on the allowlist.
\<close>

definition passes_filters :: "env \<Rightarrow> message \<Rightarrow> bool" where
  "passes_filters env m =
     (user_id (author m) \<noteq> user_id (client_user env) \<and>
      (case guild m of None \<Rightarrow> True | Some g \<Rightarrow> guild_id g \<in> allowlist env))"

text \<open>
  The event is a reply to the message \<open>mid\<close> and its lower-cased text starts with the
  command token (lines 96 to 98).
\<close>

definition reply_command :: "message \<Rightarrow> int \<Rightarrow> bool" where
  "reply_command m mid =
     (reference m = Some (Some mid) \<and> mid \<noteq> 0 \<and>
      py_startswith (py_lower (content m)) ''/translate'')"

text \<open>
  A valid command for the language \<open>lang\<close>: a reply command whose text splits into two
  parts, the second of which, trimmed, is \<open>lang\<close>, two alphabetic characters
  (lines 99 to 108).
\<close>

definition valid_command :: "message \<Rightarrow> int \<Rightarrow> string \<Rightarrow> bool" where
  "valid_command m mid lang =
     (reply_command m mid \<and>
      (let parts = py_split1 CHR '' '' (py_lower (content m))
       in 2 \<le> length parts \<and> py_strip (parts ! 1) = lang \<and>
          length lang = 2 \<and> py_isalpha lang))"

section \<open>Sample data\<close>

definition alice :: user where
  "alice = \<lparr>user_id = 1, display_name = ''alice'', mention = ''<@1>''\<rparr>"

definition bob :: user where
  "bob = \<lparr>user_id = 2, display_name = ''bob'', mention = ''<@2>''\<rparr>"

definition bot_user :: user where
  "bot_user = \<lparr>user_id = 99, display_name = ''translator'', mention = ''<@99>''\<rparr>"

definition home_guild :: guild_info where
  "home_guild = \<lparr>guild_id = 10, guild_name = ''home''\<rparr>"

definition other_guild :: guild_info where
  "other_guild = \<lparr>guild_id = 11, guild_name = ''elsewhere''\<rparr>"

definition original_message :: message where
  "original_message =
     \<lparr>author = bob, guild = Some home_guild, content = ''hello'', reference = None\<rparr>"

definition failing_translator :: translator where
  "failing_translator src tgt t = Inl (OtherException ''provider down'')"

definition bonjour_translator :: translator where
  "bonjour_translator src tgt t = Inr (Some ''bonjour'')"

definition always_sent :: "nat \<Rightarrow> raised option" where
  "always_sent k = None"


definition fetch_original :: "int \<Rightarrow> raised + message option" where
  "fetch_original i = Inr (Some original_message)"

definition fetch_null :: "int \<Rightarrow> raised + message option" where
  "fetch_null i = Inr None"

definition sample_env :: env where
  "sample_env =
     \<lparr>client_user = bot_user, allowlist = {10, 20}, fetch_message = fetch_original,
      google_translator = failing_translator, mymemory_translator = bonjour_translator,
      reply_outcome = always_sent\<rparr>"

definition fetch_not_found :: "int \<Rightarrow> raised + message option" where
  "fetch_not_found i = Inl (Exc (NotFound ''404 Not Found (error code: 10008): Unknown Message''))"

definition fetch_forbidden :: "int \<Rightarrow> raised + message option" where
  "fetch_forbidden i = Inl (Exc (Forbidden ''403 Forbidden (error code: 50001): Missing Access''))"

definition fetch_empty :: "int \<Rightarrow> raised + message option" where
  "fetch_empty i = Inr (Some (original_message\<lparr>content := []\<rparr>))"





definition null_fetch_env :: env where
  "null_fetch_env = sample_env\<lparr>fetch_message := fetch_null\<rparr>"

definition not_found_env :: env where
  "not_found_env = sample_env\<lparr>fetch_message := fetch_not_found\<rparr>"

definition forbidden_env :: env where
  "forbidden_env = sample_env\<lparr>fetch_message := fetch_forbidden\<rparr>"

definition empty_text_env :: env where
  "empty_text_env = sample_env\<lparr>fetch_message := fetch_empty\<rparr>"

text \<open>A reply to message 42 by alice, in the given guild or as a direct message.\<close>

definition reply_event :: "guild_info option \<Rightarrow> string \<Rightarrow> message" where
  "reply_event g t = \<lparr>author = alice, guild = g, content = t, reference = Some (Some 42)\<rparr>"

text \<open>The same command, sent by the bot itself in an allowed guild.\<close>

definition bot_reply_event :: message where
  "bot_reply_event = (reply_event (Some home_guild) ''/translate fr'')\<lparr>author := bot_user\<rparr>"

text \<open>The command with a tab between the token and the code.\<close>

definition tab_command :: string where
  "tab_command = ''/translate'' @ [CHR 0x09] @ ''fr''"

definition good_environ :: environ where
  "good_environ = \<lparr>DISCORD_TOKEN = Some ''token'', WHITELISTED_SERVER_IDS = Some ''10, 20''\<rparr>"

section \<open>The translation relay\<close>

lemma try_provider_calls:
  "filter is_call (snd (try_provider which translate t lang)) = [Call which ''auto'' lang t]"
  by (simp add: try_provider_def Let_def split: sum.splits)

lemma try_provider_replies:
  "filter is_reply (snd (try_provider which translate t lang)) = []"
  by (simp add: try_provider_def Let_def split: sum.splits)

lemma try_provider_result:
  "fst (try_provider which translate t lang) =
     (if succeeded (translate ''auto'' lang t) then returned_value (translate ''auto'' lang t)
      else None)"
  by (simp add: try_provider_def Let_def succeeded_def returned_value_def split: sum.splits)

lemma succeeded_returned:
  "succeeded r \<Longrightarrow> \<exists>s. returned_value r = Some s \<and> s \<noteq> []"
  by (cases r; simp add: succeeded_def returned_value_def; case_tac b; simp)

text \<open>
  C3. For a non-empty text the relay calls the primary provider first, with source
  \<open>auto\<close> and the given target. It calls the secondary provider, with the same
  arguments, exactly when the primary call raised or returned a false (empty) result,
  and never calls the primary twice. The result is the primary's value when that call
  succeeded, else the secondary's value when that call succeeded, else \<open>None\<close>.
\<close>

theorem get_translation_fallback:
  assumes "t \<noteq> []"
  shows "(let r1 = google ''auto'' lang t; r2 = mymemory ''auto'' lang t;
              out = get_translation google mymemory t lang
          in filter is_call (snd out) =
               (if succeeded r1 then [Call Google ''auto'' lang t]
                else [Call Google ''auto'' lang t, Call MyMemory ''auto'' lang t]) \<and>
             fst out =
               (if succeeded r1 then returned_value r1
                else if succeeded r2 then returned_value r2 else None))"
proof -
  obtain a1 t1 where p1: "try_provider Google google t lang = (a1, t1)"
    by (cases "try_provider Google google t lang")
  obtain a2 t2 where p2: "try_provider MyMemory mymemory t lang = (a2, t2)"
    by (cases "try_provider MyMemory mymemory t lang")
  have c1: "filter is_call t1 = [Call Google ''auto'' lang t]"
    using try_provider_calls [of Google google t lang] p1 by simp
  have c2: "filter is_call t2 = [Call MyMemory ''auto'' lang t]"
    using try_provider_calls [of MyMemory mymemory t lang] p2 by simp
  have r1: "a1 = (if succeeded (google ''auto'' lang t)
                  then returned_value (google ''auto'' lang t) else None)"
    using try_provider_result [of Google google t lang] p1 by simp
  have r2: "a2 = (if succeeded (mymemory ''auto'' lang t)
                  then returned_value (mymemory ''auto'' lang t) else None)"
    using try_provider_result [of MyMemory mymemory t lang] p2 by simp
  show ?thesis
  proof (cases "succeeded (google ''auto'' lang t)")
    case True
    then obtain s where "returned_value (google ''auto'' lang t) = Some s"
      using succeeded_returned by blast
    with True assms p1 c1 r1 show ?thesis
      by (simp add: get_translation_def Let_def)
  next
    case False
    note primary_failed = False
    show ?thesis
    proof (cases "succeeded (mymemory ''auto'' lang t)")
      case True
      then obtain s where "returned_value (mymemory ''auto'' lang t) = Some s"
        using succeeded_returned by blast
      with True primary_failed assms p1 p2 c1 c2 r1 r2 show ?thesis
        by (simp add: get_translation_def Let_def)
    next
      case False
      with primary_failed assms p1 p2 c1 c2 r1 r2 show ?thesis
        by (simp add: get_translation_def Let_def)
    qed
  qed
qed

text \<open>
  The relay at \<open>hello\<close>, target \<open>fr\<close>, with a primary provider that raises and a
  secondary that returns \<open>bonjour\<close>: both are called, in this order, and the result is
  \<open>bonjour\<close>.
\<close>

theorem get_translation_fallback_witness:
  "''hello'' \<noteq> [] \<and>
   filter is_call (snd (get_translation failing_translator bonjour_translator ''hello'' ''fr'')) =
     [Call Google ''auto'' ''fr'' ''hello'', Call MyMemory ''auto'' ''fr'' ''hello''] \<and>
   fst (get_translation failing_translator bonjour_translator ''hello'' ''fr'') = Some ''bonjour''"
proof -
  have h: "''hello'' \<noteq> []" by simp
  show ?thesis
    using get_translation_fallback [OF h, of failing_translator "''fr''" bonjour_translator]
    by (simp add: Let_def succeeded_def returned_value_def failing_translator_def
          bonjour_translator_def)
qed

text \<open>
  C4. For every target language code, and whatever the providers are, the relay called
  with the empty text returns the notice \<open>The message to translate is empty.\<close>, not
  \<open>None\<close>, and performs no action at all, so no provider call.
\<close>

theorem get_translation_empty:
  "get_translation google mymemory [] lang =
     (Some ''The message to translate is empty.'', [])"
  by (simp add: get_translation_def)

section \<open>Start-up\<close>

lemma those_map_None:
  "those (map f xs) = None \<longleftrightarrow> (\<exists>x\<in>set xs. f x = None)"
  by (induction xs) (auto split: option.splits)

lemma those_map_Some:
  assumes "those (map f xs) = Some ys" and "x \<in> set xs"
  shows "\<exists>y. f x = Some y"
proof (cases "f x")
  case None
  with assms(2) have "those (map f xs) = None"
    by (auto simp add: those_map_None)
  with assms(1) show ?thesis by simp
next
  case (Some y)
  then show ?thesis by simp
qed

text \<open>
  C5. Start-up leaves the process with the matching error, and never reaches the
  construction of the client, in each of these cases, whatever the parser of a token is:
  \<^item> \<open>WHITELISTED_SERVER_IDS\<close> is unset or empty: the two lines that it was not found;
  \<^item> it is set and one of its comma-separated tokens, trimmed, does not parse as an
    integer: the line that it must be a list of numbers;
  \<^item> \<open>DISCORD_TOKEN\<close> is unset and the allowlist is well formed: the two lines that the
    token was not found;
  \<^item> \<open>DISCORD_TOKEN\<close> is unset, whatever the allowlist is: some error is printed and the
    process exits.
\<close>

theorem startup_exits_on_bad_configuration:
  "((WHITELISTED_SERVER_IDS env = None \<or> WHITELISTED_SERVER_IDS env = Some []) \<longrightarrow>
      startup int_of_str env =
        Exited [''ERROR: WHITELISTED_SERVER_IDS not found in .env file.'',
                ''Please set WHITELISTED_SERVER_IDS=YOUR_SERVER_ID_1,YOUR_SERVER_ID_2,...'']) \<and>
   (\<forall>s. WHITELISTED_SERVER_IDS env = Some s \<and> s \<noteq> [] \<and>
        (\<exists>tok\<in>set (py_split CHR '','' s). int_of_str (py_strip tok) = None) \<longrightarrow>
      startup int_of_str env =
        Exited [''ERROR: WHITELISTED_SERVER_IDS in .env file must be a comma-separated list of numbers.'']) \<and>
   (\<forall>s. DISCORD_TOKEN env = None \<and> WHITELISTED_SERVER_IDS env = Some s \<and> s \<noteq> [] \<and>
        (\<forall>tok\<in>set (py_split CHR '','' s). int_of_str (py_strip tok) \<noteq> None) \<longrightarrow>
      startup int_of_str env =
        Exited [''ERROR: DISCORD_TOKEN not found in .env file.'',
                ''Please ensure DISCORD_TOKEN=YOUR_BOT_TOKEN_HERE is correctly set.'']) \<and>
   (DISCORD_TOKEN env = None \<longrightarrow>
      (\<exists>printed. startup int_of_str env = Exited printed \<and> printed \<noteq> []))"
  by (auto simp add: startup_def those_map_None split: option.splits dest: those_map_Some)

text \<open>
  Start-up with Python's \<open>int\<close> on an unset allowlist, on the allowlist \<open>123, abc\<close>, and
  on an unset token; the well-formed configuration constructs the client.
\<close>

theorem startup_exits_on_bad_configuration_witness:
  "startup py_int (good_environ\<lparr>WHITELISTED_SERVER_IDS := None\<rparr>) =
     Exited [''ERROR: WHITELISTED_SERVER_IDS not found in .env file.'',
             ''Please set WHITELISTED_SERVER_IDS=YOUR_SERVER_ID_1,YOUR_SERVER_ID_2,...''] \<and>
   '' abc'' \<in> set (py_split CHR '','' ''123, abc'') \<and>
   py_int (py_strip '' abc'') = None \<and>
   startup py_int (good_environ\<lparr>WHITELISTED_SERVER_IDS := Some ''123, abc''\<rparr>) =
     Exited [''ERROR: WHITELISTED_SERVER_IDS in .env file must be a comma-separated list of numbers.''] \<and>
   startup py_int (good_environ\<lparr>DISCORD_TOKEN := None\<rparr>) =
     Exited [''ERROR: DISCORD_TOKEN not found in .env file.'',
             ''Please ensure DISCORD_TOKEN=YOUR_BOT_TOKEN_HERE is correctly set.''] \<and>
   startup py_int good_environ = ClientConstructed ''token'' {10, 20}"
proof -
  have unset: "WHITELISTED_SERVER_IDS (good_environ\<lparr>WHITELISTED_SERVER_IDS := None\<rparr>) = None"
    by simp
  have tok: "'' abc'' \<in> set (py_split CHR '','' ''123, abc'')"
    by code_simp
  have bad: "py_int (py_strip '' abc'') = None"
    by code_simp
  have malformed:
    "WHITELISTED_SERVER_IDS (good_environ\<lparr>WHITELISTED_SERVER_IDS := Some ''123, abc''\<rparr>) =
       Some ''123, abc'' \<and> ''123, abc'' \<noteq> [] \<and>
     (\<exists>tok\<in>set (py_split CHR '','' ''123, abc''). py_int (py_strip tok) = None)"
    using tok bad by auto
  have no_token:
    "DISCORD_TOKEN (good_environ\<lparr>DISCORD_TOKEN := None\<rparr>) = None \<and>
     WHITELISTED_SERVER_IDS (good_environ\<lparr>DISCORD_TOKEN := None\<rparr>) = Some ''10, 20'' \<and>
     ''10, 20'' \<noteq> [] \<and>
     (\<forall>tok\<in>set (py_split CHR '','' ''10, 20''). py_int (py_strip tok) \<noteq> None)"
  proof -
    have "\<forall>tok\<in>set (py_split CHR '','' ''10, 20''). py_int (py_strip tok) \<noteq> None"
      by code_simp
    then show ?thesis by (simp add: good_environ_def)
  qed
  have started: "startup py_int good_environ = ClientConstructed ''token'' {10, 20}"
    by code_simp
  from unset malformed no_token tok bad started
    startup_exits_on_bad_configuration [of "good_environ\<lparr>WHITELISTED_SERVER_IDS := None\<rparr>" py_int]
    startup_exits_on_bad_configuration
      [of "good_environ\<lparr>WHITELISTED_SERVER_IDS := Some ''123, abc''\<rparr>" py_int]
    startup_exits_on_bad_configuration [of "good_environ\<lparr>DISCORD_TOKEN := None\<rparr>" py_int]
  show ?thesis by blast
qed

section \<open>Splitting and trimming\<close>

lemma py_split1_without: "sep \<notin> set s \<Longrightarrow> py_split1 sep s = [s]"
proof -
  assume "sep \<notin> set s"
  then have "dropWhile (\<lambda>c. c \<noteq> sep) s = []" by (auto simp add: dropWhile_eq_Nil_conv)
  then show ?thesis by (simp only: py_split1_def list.case)
qed

lemma py_split1_at: "sep \<notin> set a \<Longrightarrow> py_split1 sep (a @ sep # b) = [a, b]"
proof -
  assume h: "sep \<notin> set a"
  then have "dropWhile (\<lambda>c. c \<noteq> sep) (a @ sep # b) = sep # b"
    by (auto simp add: dropWhile_append3)
  moreover from h have "takeWhile (\<lambda>c. c \<noteq> sep) (a @ sep # b) = a"
    by (auto simp add: takeWhile_tail)
  ultimately show ?thesis by (simp add: py_split1_def)
qed

lemma py_split1_with: "sep \<in> set s \<Longrightarrow> length (py_split1 sep s) = 2"
proof -
  assume "sep \<in> set s"
  then obtain a b where "s = a @ sep # b" and "sep \<notin> set a"
    by (auto dest: split_list_first)
  then show ?thesis by (simp add: py_split1_at)
qed



section \<open>The actions of the event dispatcher\<close>

lemma reply_snd: "snd (reply env t tr) = tr @ [Reply t]"
  by (simp add: reply_def split: option.splits)

lemma get_translation_replies:
  "filter is_reply (snd (get_translation google mymemory t lang)) = []"
proof -
  obtain a1 t1 where p1: "try_provider Google google t lang = (a1, t1)"
    by (cases "try_provider Google google t lang")
  obtain a2 t2 where p2: "try_provider MyMemory mymemory t lang = (a2, t2)"
    by (cases "try_provider MyMemory mymemory t lang")
  have "filter is_reply t1 = []" "filter is_reply t2 = []"
    using try_provider_replies [of Google google t lang]
      try_provider_replies [of MyMemory mymemory t lang] p1 p2 by simp_all
  then show ?thesis
    using p1 p2 by (simp add: get_translation_def split: option.splits)
qed

text \<open>On an event that passes the filters and is a valid command, the handler is the
  \<open>try\<close> statement.\<close>

lemma on_message_valid_command:
  assumes "passes_filters env m" and "valid_command m mid lang"
  shows "on_message env m = except_clauses env (try_body env m mid lang [Print DebugReceived])"
  using assms
  by (auto simp add: on_message_def passes_filters_def valid_command_def reply_command_def Let_def
      split: option.splits)

lemma except_clauses_calls:
  "filter is_call (snd (except_clauses env r)) = filter is_call (snd r)"
  by (simp add: except_clauses_def reply_snd split: prod.splits sum.splits exn.splits raised.splits)

lemma try_body_direct_message:
  assumes "guild m = None"
  shows "filter is_call (snd (try_body env m mid lang tr)) = filter is_call tr"
  using assms
  by (simp add: try_body_def Let_def reply_snd split: sum.splits option.splits)









lemma try_body_calls:
  assumes "filter is_call tr = []"
    and "filter is_call (snd (try_body env m mid lang tr)) \<noteq> []"
  shows "\<exists>rm. fetch_message env mid = Inr (Some rm) \<and> content rm \<noteq> []"
  using assms
  by (auto simp add: try_body_def Let_def reply_snd split: sum.splits option.splits if_splits)




lemma no_reply_member: "filter is_reply xs = [] \<Longrightarrow> Reply u \<notin> set xs"
  by (induction xs) (auto split: if_splits)

lemma get_translation_no_reply:
  "Reply u \<notin> set (snd (get_translation google mymemory t lang))"
  using get_translation_replies [of google mymemory t lang] by (rule no_reply_member)

lemma get_translation_no_replyD:
  "get_translation google mymemory t lang = (a, c) \<Longrightarrow> Reply u \<notin> set c"
  using get_translation_no_reply [of u google mymemory t lang] by simp

lemma try_body_no_usage:
  assumes "Reply ''Usage: `/translate <language_code>` when replying to a message.'' \<notin> set tr"
  shows "Reply ''Usage: `/translate <language_code>` when replying to a message.'' \<notin>
           set (snd (try_body env m mid lang tr))"
  using assms
  by (auto simp add: try_body_def Let_def reply_snd
      split: sum.splits option.splits prod.splits if_splits dest: get_translation_no_replyD)

lemma except_clauses_no_usage:
  assumes "Reply ''Usage: `/translate <language_code>` when replying to a message.'' \<notin> set (snd r)"
  shows "Reply ''Usage: `/translate <language_code>` when replying to a message.'' \<notin>
           set (snd (except_clauses env r))"
  using assms
  by (auto simp add: except_clauses_def reply_snd split: prod.splits sum.splits exn.splits raised.splits)

section \<open>The properties of the event dispatcher\<close>

text \<open>
  C1. In a direct message (an event without guild) the handler never calls a translation
  provider, so the relay is never reached: for a valid command whose referenced message is
  fetched with a non-empty text, line 123 reads \<open>message.guild.name\<close> before the relay
  is called, the \<open>AttributeError\<close> is caught by the last \<open>except\<close> clause, and the user
  gets the internal-error reply.
\<close>

theorem direct_message_never_translated:
  assumes "guild m = None"
  shows "filter is_call (snd (on_message env m)) = []"
  using assms
  by (simp add: on_message_def Let_def reply_snd except_clauses_calls try_body_direct_message
      split: option.splits)

text \<open>
  The direct message \<open>/translate fr\<close>, replying to a message whose text is \<open>hello\<close>:
  the guild filter is passed and the message is fetched, and then the run ends with the
  internal-error reply, without any provider call.
\<close>

theorem direct_message_never_translated_witness:
  "guild (reply_event None ''/translate fr'') = None \<and>
   passes_filters sample_env (reply_event None ''/translate fr'') \<and>
   valid_command (reply_event None ''/translate fr'') 42 ''fr'' \<and>
   fetch_message sample_env 42 = Inr (Some original_message) \<and>
   content original_message = ''hello'' \<and>
   filter is_call (snd (on_message sample_env (reply_event None ''/translate fr''))) = [] \<and>
   on_message sample_env (reply_event None ''/translate fr'') =
     (Inr (),
      [Print DebugReceived, Fetch 42,
       Print (UnexpectedError
                ([CHR 0x27] @ ''NoneType' object has no attribute 'name'' @ [CHR 0x27])),
       Reply (''An internal error occurred: '' @ [CHR 0x27] @
              ''NoneType' object has no attribute 'name'' @ [CHR 0x27] @
              ''. Please try again later.'')])"
proof -
  have h: "guild (reply_event None ''/translate fr'') = None"
    by (simp add: reply_event_def)
  have p: "passes_filters sample_env (reply_event None ''/translate fr'')"
    by code_simp
  have v: "valid_command (reply_event None ''/translate fr'') 42 ''fr''"
    by code_simp
  have f: "fetch_message sample_env 42 = Inr (Some original_message)"
    by (simp add: sample_env_def fetch_original_def)
  have c: "content original_message = ''hello''"
    by (simp add: original_message_def)
  have run: "on_message sample_env (reply_event None ''/translate fr'') =
     (Inr (),
      [Print DebugReceived, Fetch 42,
       Print (UnexpectedError
                ([CHR 0x27] @ ''NoneType' object has no attribute 'name'' @ [CHR 0x27])),
       Reply (''An internal error occurred: '' @ [CHR 0x27] @
              ''NoneType' object has no attribute 'name'' @ [CHR 0x27] @
              ''. Please try again later.'')])"
    by code_simp
  from h p v f c run direct_message_never_translated [OF h, of sample_env]
  show ?thesis by blast
qed




text \<open>
  C6. For an event that passes the filters and is a reply command whose lower-cased text
  splits into two parts: when the second part, trimmed, is not two characters long or is
  not alphabetic, the handler does nothing but send the invalid-language-code reply that
  names the trimmed code. It fetches no message and calls no provider.
\<close>

theorem invalid_language_code_reply:
  assumes "passes_filters env m" and "reply_command m mid"
    and "py_split1 CHR '' '' (py_lower (content m)) = [cmd, arg]"
    and "length (py_strip arg) \<noteq> 2 \<or> \<not> py_isalpha (py_strip arg)"
  shows "on_message env m =
           reply env (''Invalid language code: `'' @ py_strip arg @
                      ''`. Please use a 2-letter ISO 639-1 code.'') [Print DebugReceived] \<and>
         snd (on_message env m) =
           [Print DebugReceived,
            Reply (''Invalid language code: `'' @ py_strip arg @
                   ''`. Please use a 2-letter ISO 639-1 code.'')]"
  using assms
  by (auto simp add: on_message_def passes_filters_def reply_command_def Let_def reply_snd
      split: option.splits)

text \<open>The command \<open>/translate f\<close>, with a code of one character.\<close>

theorem invalid_language_code_reply_witness:
  "passes_filters sample_env (reply_event (Some home_guild) ''/translate f'') \<and>
   reply_command (reply_event (Some home_guild) ''/translate f'') 42 \<and>
   py_split1 CHR '' '' (py_lower (content (reply_event (Some home_guild) ''/translate f''))) =
     [''/translate'', ''f''] \<and>
   length (py_strip ''f'') \<noteq> 2 \<and>
   snd (on_message sample_env (reply_event (Some home_guild) ''/translate f'')) =
     [Print DebugReceived,
      Reply (''Invalid language code: `'' @ py_strip ''f'' @
             ''`. Please use a 2-letter ISO 639-1 code.'')]"
proof -
  have p: "passes_filters sample_env (reply_event (Some home_guild) ''/translate f'')"
    by code_simp
  have r: "reply_command (reply_event (Some home_guild) ''/translate f'') 42"
    by code_simp
  have s: "py_split1 CHR '' '' (py_lower (content (reply_event (Some home_guild) ''/translate f''))) =
     [''/translate'', ''f'']"
    by code_simp
  have l: "length (py_strip ''f'') \<noteq> 2"
    by code_simp
  then have d: "length (py_strip ''f'') \<noteq> 2 \<or> \<not> py_isalpha (py_strip ''f'')"
    by simp
  from p r s l conjunct2 [OF invalid_language_code_reply [OF p r s d]]
  show ?thesis by (intro conjI) assumption+
qed

text \<open>
  C7 (as amended). For a valid command whose first reply is sent, the fetch of the
  referenced message has four outcomes that end the run with a reply of their own:
  \<open>discord.NotFound\<close> gives \<open>could not be found\<close>, \<open>discord.Forbidden\<close> gives the reply
  about permissions, a message that is \<open>None\<close> gives \<open>Could not retrieve the original
  message\<close>, and a message with an empty text gives \<open>no text content to translate\<close>.
  A provider is called only if the fetch returned a message with a non-empty text.
\<close>

theorem fetch_outcomes:
  assumes "passes_filters env m" and "valid_command m mid lang"
    and "reply_outcome env 0 = None"
  shows
    "(\<forall>s. fetch_message env mid = Inl (Exc (NotFound s)) \<longrightarrow>
        on_message env m =
          (Inr (), [Print DebugReceived, Fetch mid,
                    Reply ''The message you replied to could not be found.''])) \<and>
     (\<forall>s. fetch_message env mid = Inl (Exc (Forbidden s)) \<longrightarrow>
        on_message env m =
          (Inr (), [Print DebugReceived, Fetch mid,
                    Reply ''I don't have permissions to read the message you replied to.''])) \<and>
     (fetch_message env mid = Inr None \<longrightarrow>
        on_message env m =
          (Inr (), [Print DebugReceived, Fetch mid,
                    Reply ''Could not retrieve the original message you replied to. It might be too old or deleted.''])) \<and>
     (\<forall>rm. fetch_message env mid = Inr (Some rm) \<and> content rm = [] \<longrightarrow>
        on_message env m =
          (Inr (), [Print DebugReceived, Fetch mid,
                    Reply ''The message you replied to has no text content to translate.''])) \<and>
     (filter is_call (snd (on_message env m)) \<noteq> [] \<longrightarrow>
        (\<exists>rm. fetch_message env mid = Inr (Some rm) \<and> content rm \<noteq> []))"
proof -
  note run = on_message_valid_command [OF assms(1) assms(2)]
  have a: "on_message env m =
        (Inr (), [Print DebugReceived, Fetch mid,
                  Reply ''The message you replied to could not be found.''])"
    if "fetch_message env mid = Inl (Exc (NotFound s))" for s
    using that assms(3) by (simp add: run try_body_def except_clauses_def reply_def)
  have b: "on_message env m =
        (Inr (), [Print DebugReceived, Fetch mid,
                  Reply ''I don't have permissions to read the message you replied to.''])"
    if "fetch_message env mid = Inl (Exc (Forbidden s))" for s
    using that assms(3) by (simp add: run try_body_def except_clauses_def reply_def)
  have c: "on_message env m =
        (Inr (), [Print DebugReceived, Fetch mid,
                  Reply ''Could not retrieve the original message you replied to. It might be too old or deleted.''])"
    if "fetch_message env mid = Inr None"
    using that assms(3) by (simp add: run try_body_def except_clauses_def reply_def)
  have d: "on_message env m =
        (Inr (), [Print DebugReceived, Fetch mid,
                  Reply ''The message you replied to has no text content to translate.''])"
    if "fetch_message env mid = Inr (Some rm)" and "content rm = []" for rm
    using that assms(3) by (simp add: run try_body_def except_clauses_def reply_def)
  have e: "\<exists>rm. fetch_message env mid = Inr (Some rm) \<and> content rm \<noteq> []"
    if "filter is_call (snd (on_message env m)) \<noteq> []"
  proof -
    from that have "filter is_call (snd (try_body env m mid lang [Print DebugReceived])) \<noteq> []"
      by (simp add: run except_clauses_calls)
    then show ?thesis
      using try_body_calls [of "[Print DebugReceived]" env m mid lang] by simp
  qed
  from a b c d e show ?thesis by blast
qed

text \<open>
  The command \<open>/translate fr\<close> in an allowed guild, with a fetch that raises
  \<open>NotFound\<close>, one that raises \<open>Forbidden\<close>, one that returns \<open>None\<close>, one that returns a
  message without text, and one that returns \<open>hello\<close>.
\<close>

theorem fetch_outcomes_witness:
  "passes_filters not_found_env (reply_event (Some home_guild) ''/translate fr'') \<and>
   valid_command (reply_event (Some home_guild) ''/translate fr'') 42 ''fr'' \<and>
   on_message not_found_env (reply_event (Some home_guild) ''/translate fr'') =
     (Inr (), [Print DebugReceived, Fetch 42,
               Reply ''The message you replied to could not be found.'']) \<and>
   on_message forbidden_env (reply_event (Some home_guild) ''/translate fr'') =
     (Inr (), [Print DebugReceived, Fetch 42,
               Reply ''I don't have permissions to read the message you replied to.'']) \<and>
   on_message null_fetch_env (reply_event (Some home_guild) ''/translate fr'') =
     (Inr (), [Print DebugReceived, Fetch 42,
               Reply ''Could not retrieve the original message you replied to. It might be too old or deleted.'']) \<and>
   on_message empty_text_env (reply_event (Some home_guild) ''/translate fr'') =
     (Inr (), [Print DebugReceived, Fetch 42,
               Reply ''The message you replied to has no text content to translate.'']) \<and>
   filter is_call (snd (on_message sample_env (reply_event (Some home_guild) ''/translate fr''))) \<noteq> [] \<and>
   (\<exists>rm. fetch_message sample_env 42 = Inr (Some rm) \<and> content rm \<noteq> [])"
proof -
  have v: "valid_command (reply_event (Some home_guild) ''/translate fr'') 42 ''fr''"
    by code_simp
  have p1: "passes_filters not_found_env (reply_event (Some home_guild) ''/translate fr'')"
    by code_simp
  have p2: "passes_filters forbidden_env (reply_event (Some home_guild) ''/translate fr'')"
    by code_simp
  have p3: "passes_filters null_fetch_env (reply_event (Some home_guild) ''/translate fr'')"
    by code_simp
  have p4: "passes_filters empty_text_env (reply_event (Some home_guild) ''/translate fr'')"
    by code_simp
  have p5: "passes_filters sample_env (reply_event (Some home_guild) ''/translate fr'')"
    by code_simp
  have s1: "reply_outcome not_found_env 0 = None"
    by (simp add: not_found_env_def sample_env_def always_sent_def)
  have s2: "reply_outcome forbidden_env 0 = None"
    by (simp add: forbidden_env_def sample_env_def always_sent_def)
  have s3: "reply_outcome null_fetch_env 0 = None"
    by (simp add: null_fetch_env_def sample_env_def always_sent_def)
  have s4: "reply_outcome empty_text_env 0 = None"
    by (simp add: empty_text_env_def sample_env_def always_sent_def)
  have s5: "reply_outcome sample_env 0 = None"
    by (simp add: sample_env_def always_sent_def)
  have f1: "fetch_message not_found_env 42 =
              Inl (Exc (NotFound ''404 Not Found (error code: 10008): Unknown Message''))"
    by (simp add: not_found_env_def fetch_not_found_def)
  have f2: "fetch_message forbidden_env 42 =
              Inl (Exc (Forbidden ''403 Forbidden (error code: 50001): Missing Access''))"
    by (simp add: forbidden_env_def fetch_forbidden_def)
  have f3: "fetch_message null_fetch_env 42 = Inr None"
    by (simp add: null_fetch_env_def fetch_null_def)
  have f4: "fetch_message empty_text_env 42 = Inr (Some (original_message\<lparr>content := []\<rparr>)) \<and>
            content (original_message\<lparr>content := []\<rparr>) = []"
    by (simp add: empty_text_env_def fetch_empty_def)
  have c5: "filter is_call
              (snd (on_message sample_env (reply_event (Some home_guild) ''/translate fr''))) \<noteq> []"
    by code_simp
  have a: "on_message not_found_env (reply_event (Some home_guild) ''/translate fr'') =
     (Inr (), [Print DebugReceived, Fetch 42,
               Reply ''The message you replied to could not be found.''])"
    using fetch_outcomes [OF p1 v s1] f1 by simp
  have b: "on_message forbidden_env (reply_event (Some home_guild) ''/translate fr'') =
     (Inr (), [Print DebugReceived, Fetch 42,
               Reply ''I don't have permissions to read the message you replied to.''])"
    using fetch_outcomes [OF p2 v s2] f2 by simp
  have c: "on_message null_fetch_env (reply_event (Some home_guild) ''/translate fr'') =
     (Inr (), [Print DebugReceived, Fetch 42,
               Reply ''Could not retrieve the original message you replied to. It might be too old or deleted.''])"
    using fetch_outcomes [OF p3 v s3] f3 by simp
  have d: "on_message empty_text_env (reply_event (Some home_guild) ''/translate fr'') =
     (Inr (), [Print DebugReceived, Fetch 42,
               Reply ''The message you replied to has no text content to translate.''])"
    using fetch_outcomes [OF p4 v s4] f4 by simp
  have e: "\<exists>rm. fetch_message sample_env 42 = Inr (Some rm) \<and> content rm \<noteq> []"
    using fetch_outcomes [OF p5 v s5] c5 by simp
  show ?thesis
    using p1 v a b c d c5 e by (intro conjI) assumption+
qed

text \<open>
  C7 as stated fails for a fetch that returns \<open>None\<close>: the reply is the one of line 114,
  not \<open>no text content to translate\<close>.
\<close>

theorem null_fetch_reply:
  "passes_filters null_fetch_env (reply_event (Some home_guild) ''/translate fr'') \<and>
   valid_command (reply_event (Some home_guild) ''/translate fr'') 42 ''fr'' \<and>
   fetch_message null_fetch_env 42 = Inr None \<and>
   reply_outcome null_fetch_env 0 = None \<and>
   on_message null_fetch_env (reply_event (Some home_guild) ''/translate fr'') =
     (Inr (), [Print DebugReceived, Fetch 42,
               Reply ''Could not retrieve the original message you replied to. It might be too old or deleted.'']) \<and>
   Reply ''The message you replied to has no text content to translate.'' \<notin>
     set (snd (on_message null_fetch_env (reply_event (Some home_guild) ''/translate fr'')))"
  by code_simp

text \<open>
  C8. An event of a guild that is not on the allowlist, and an event whose author is the
  bot itself, make the handler return without a reply, a fetch or a provider call,
  whatever the text is.
\<close>

theorem ignored_events:
  assumes "(\<exists>g. guild m = Some g \<and> guild_id g \<notin> allowlist env) \<or>
           user_id (author m) = user_id (client_user env)"
  shows "fst (on_message env m) = Inr () \<and>
         filter is_reply (snd (on_message env m)) = [] \<and>
         filter is_fetch (snd (on_message env m)) = [] \<and>
         filter is_call (snd (on_message env m)) = []"
  using assms by (auto simp add: on_message_def Let_def)

text \<open>
  The valid command \<open>/translate fr\<close> from a guild that is not allowed, and the same
  command sent by the bot in an allowed guild.
\<close>

theorem ignored_events_witness:
  "guild (reply_event (Some other_guild) ''/translate fr'') = Some other_guild \<and>
   guild_id other_guild \<notin> allowlist sample_env \<and>
   fst (on_message sample_env (reply_event (Some other_guild) ''/translate fr'')) = Inr () \<and>
   filter is_reply (snd (on_message sample_env (reply_event (Some other_guild) ''/translate fr''))) = [] \<and>
   filter is_fetch (snd (on_message sample_env (reply_event (Some other_guild) ''/translate fr''))) = [] \<and>
   filter is_call (snd (on_message sample_env (reply_event (Some other_guild) ''/translate fr''))) = [] \<and>
   user_id (author (bot_reply_event)) = user_id (client_user sample_env) \<and>
   valid_command bot_reply_event 42 ''fr'' \<and>
   fst (on_message sample_env bot_reply_event) = Inr () \<and>
   filter is_reply (snd (on_message sample_env bot_reply_event)) = [] \<and>
   filter is_fetch (snd (on_message sample_env bot_reply_event)) = [] \<and>
   filter is_call (snd (on_message sample_env bot_reply_event)) = []"
proof -
  have g: "guild (reply_event (Some other_guild) ''/translate fr'') = Some other_guild"
    by (simp add: reply_event_def)
  have n: "guild_id other_guild \<notin> allowlist sample_env"
    by (simp add: other_guild_def sample_env_def)
  have a: "user_id (author (bot_reply_event)) = user_id (client_user sample_env)"
    by (simp add: bot_reply_event_def sample_env_def)
  have v: "valid_command bot_reply_event 42 ''fr''"
    by code_simp
  have h1: "(\<exists>g. guild (reply_event (Some other_guild) ''/translate fr'') = Some g \<and>
               guild_id g \<notin> allowlist sample_env) \<or>
            user_id (author (reply_event (Some other_guild) ''/translate fr'')) =
              user_id (client_user sample_env)"
    using g n by simp
  have h2: "(\<exists>g. guild bot_reply_event = Some g \<and> guild_id g \<notin> allowlist sample_env) \<or>
            user_id (author bot_reply_event) = user_id (client_user sample_env)"
    using a by simp
  from g n a v ignored_events [OF h1] ignored_events [OF h2]
  show ?thesis by blast
qed

text \<open>
  C9 (as amended). The argument parse splits the lower-cased text at the first space
  character (code point 32) only. For an event that passes the filters and is a reply
  command: when the lower-cased text contains a space, it splits into two parts and the
  usage message is not sent; when it contains no space, it is one part and the handler
  does nothing but send the usage message, whatever other whitespace the text holds.
\<close>

theorem usage_check_splits_on_space:
  assumes "passes_filters env m" and "reply_command m mid"
  shows "(CHR '' '' \<in> set (py_lower (content m)) \<longrightarrow>
            length (py_split1 CHR '' '' (py_lower (content m))) = 2 \<and>
            Reply ''Usage: `/translate <language_code>` when replying to a message.'' \<notin>
              set (snd (on_message env m))) \<and>
         (CHR '' '' \<notin> set (py_lower (content m)) \<longrightarrow>
            py_split1 CHR '' '' (py_lower (content m)) = [py_lower (content m)] \<and>
            snd (on_message env m) =
              [Print DebugReceived,
               Reply ''Usage: `/translate <language_code>` when replying to a message.''])"
proof -
  have with_space:
    "Reply ''Usage: `/translate <language_code>` when replying to a message.'' \<notin>
       set (snd (on_message env m))"
    if len: "length (py_split1 CHR '' '' (py_lower (content m))) = 2"
  proof -
    have body: "Reply ''Usage: `/translate <language_code>` when replying to a message.'' \<notin>
        set (snd (except_clauses env (try_body env m mid lang [Print DebugReceived])))" for lang
      by (rule except_clauses_no_usage, rule try_body_no_usage) simp
    show ?thesis
      using assms len body
      by (simp add: on_message_def passes_filters_def reply_command_def Let_def reply_snd
          split: option.splits)
  qed
  have without_space:
    "snd (on_message env m) =
       [Print DebugReceived,
        Reply ''Usage: `/translate <language_code>` when replying to a message.'']"
    if one: "py_split1 CHR '' '' (py_lower (content m)) = [py_lower (content m)]"
    using assms one
    by (simp add: on_message_def passes_filters_def reply_command_def Let_def reply_snd
        split: option.splits)
  show ?thesis
    using with_space without_space py_split1_with [of "CHR '' ''" "py_lower (content m)"]
      py_split1_without [of "CHR '' ''" "py_lower (content m)"]
    by blast
qed

text \<open>The command \<open>/translate fr\<close> with a space, and with a tab instead.\<close>

theorem usage_check_splits_on_space_witness:
  "passes_filters sample_env (reply_event (Some home_guild) ''/translate fr'') \<and>
   reply_command (reply_event (Some home_guild) ''/translate fr'') 42 \<and>
   CHR '' '' \<in> set (py_lower (content (reply_event (Some home_guild) ''/translate fr''))) \<and>
   length (py_split1 CHR '' ''
     (py_lower (content (reply_event (Some home_guild) ''/translate fr'')))) = 2 \<and>
   Reply ''Usage: `/translate <language_code>` when replying to a message.'' \<notin>
     set (snd (on_message sample_env (reply_event (Some home_guild) ''/translate fr''))) \<and>
   passes_filters sample_env (reply_event (Some home_guild) tab_command) \<and>
   reply_command (reply_event (Some home_guild) tab_command) 42 \<and>
   CHR '' '' \<notin> set (py_lower (content (reply_event (Some home_guild) tab_command))) \<and>
   snd (on_message sample_env (reply_event (Some home_guild) tab_command)) =
     [Print DebugReceived,
      Reply ''Usage: `/translate <language_code>` when replying to a message.'']"
proof -
  have p1: "passes_filters sample_env (reply_event (Some home_guild) ''/translate fr'')"
    by code_simp
  have r1: "reply_command (reply_event (Some home_guild) ''/translate fr'') 42"
    by code_simp
  have c1: "CHR '' '' \<in> set (py_lower (content (reply_event (Some home_guild) ''/translate fr'')))"
    by code_simp
  have p2: "passes_filters sample_env (reply_event (Some home_guild) tab_command)"
    by code_simp
  have r2: "reply_command (reply_event (Some home_guild) tab_command) 42"
    by code_simp
  have c2: "CHR '' '' \<notin> set (py_lower (content (reply_event (Some home_guild) tab_command)))"
    by code_simp
  have a: "length (py_split1 CHR '' ''
     (py_lower (content (reply_event (Some home_guild) ''/translate fr'')))) = 2 \<and>
   Reply ''Usage: `/translate <language_code>` when replying to a message.'' \<notin>
     set (snd (on_message sample_env (reply_event (Some home_guild) ''/translate fr'')))"
    using usage_check_splits_on_space [OF p1 r1] c1 by simp
  have b: "snd (on_message sample_env (reply_event (Some home_guild) tab_command)) =
     [Print DebugReceived,
      Reply ''Usage: `/translate <language_code>` when replying to a message.'']"
    using usage_check_splits_on_space [OF p2 r2] c2 by simp
  show ?thesis
    using p1 r1 c1 conjunct1 [OF a] conjunct2 [OF a] p2 r2 c2 b by (intro conjI) assumption+
qed

text \<open>
  C9 as stated fails for a tab: the text is the command token, a whitespace character and
  a valid two-letter code, and the handler sends the usage message.
\<close>

theorem tab_gets_usage:
  "py_isspace (CHR 0x09) \<and>
   py_lower tab_command = ''/translate'' @ [CHR 0x09] @ ''fr'' \<and>
   length ''fr'' = 2 \<and> py_isalpha ''fr'' \<and>
   passes_filters sample_env (reply_event (Some home_guild) tab_command) \<and>
   reply_command (reply_event (Some home_guild) tab_command) 42 \<and>
   py_split1 CHR '' '' (py_lower (content (reply_event (Some home_guild) tab_command))) =
     [''/translate'' @ [CHR 0x09] @ ''fr''] \<and>
   on_message sample_env (reply_event (Some home_guild) tab_command) =
     (Inr (), [Print DebugReceived,
               Reply ''Usage: `/translate <language_code>` when replying to a message.''])"
  by code_simp




end
